theory Spec2Isabelle
  imports Main
begin

section \<open>Errors, durations and the Application resource\<close>

text \<open>
  Go's \<open>time.Duration\<close> counts nanoseconds; \<open>time.Second\<close> and \<open>time.Minute\<close> are
  the library's constants.
\<close>

type_synonym Duration = int

definition Second :: Duration where
  "Second = 1000000000"

definition Minute :: Duration where
  "Minute = 60 * Second"

text \<open>
  The errors the helpers handle: a status error of the API server (with the reason that
  \<open>k8sErrors.IsNotFound\<close> inspects), the timeout error of a poll loop, an error made by
  \<open>fmt.Errorf\<close> (only its message is kept: the verb is \<open>%+v\<close>, so nothing is wrapped),
  and a path error of the operating system.
\<close>

datatype StatusReason =
    StatusReasonNotFound
  | StatusReasonAlreadyExists
  | StatusReasonInvalid
  | StatusReasonForbidden
  | StatusReasonInternalError
  | StatusReasonUnknown

datatype error =
    StatusError StatusReason string
  | ErrWaitTimeout
  | ErrorString string
  | PathError string string

fun Error :: "error \<Rightarrow> string" where
  "Error (StatusError r m) = m"
| "Error ErrWaitTimeout = ''timed out waiting for the condition''"
| "Error (ErrorString m) = m"
| "Error (PathError p m) = ''mkdir '' @ p @ '': '' @ m"

fun IsNotFound :: "error \<Rightarrow> bool" where
  "IsNotFound (StatusError r m) = (r = StatusReasonNotFound)"
| "IsNotFound e = False"

record ApplicationSpec =
  DisplayName :: string

record ApplicationStatus =
  Devfile :: string

text \<open>
  \<open>appservice.Application\<close>, with the fields of the embedded \<open>ObjectMeta\<close> that the
  helpers read promoted as Go promotes them.
\<close>

record Application =
  Name :: string
  Namespace :: string
  Spec :: ApplicationSpec
  Status :: ApplicationStatus

section \<open>The cluster client and the observable trace\<close>

text \<open>
  \<open>h.KubeRest()\<close> is a controller-runtime client. The cluster behind it is a state
  \<open>'w\<close> that the helpers cannot see; every call may change it. A call that fills the
  object it is given returns that object.
\<close>

record 'w Client =
  Get :: "string \<Rightarrow> string \<Rightarrow> 'w \<Rightarrow> (error + Application) \<times> 'w"
  Create :: "Application \<Rightarrow> 'w \<Rightarrow> (error + Application) \<times> 'w"
  Delete :: "Application \<Rightarrow> 'w \<Rightarrow> error option \<times> 'w"
  DeleteAllOf :: "string \<Rightarrow> 'w \<Rightarrow> error option \<times> 'w"
  List :: "string \<Rightarrow> 'w \<Rightarrow> (error + Application list) \<times> 'w"

record 'w hasFactory =
  KubeRest :: "'w Client"

text \<open>
  Every call that leaves the process is recorded, with its arguments and its outcome, in
  the order the code makes it.
\<close>

datatype event =
    EvGet string string "error + Application"
  | EvCreate Application "error + Application"
  | EvDelete Application "error option"
  | EvDeleteAllOf string "error option"
  | EvList string "error + Application list"
  | EvSleep Duration
  | EvMkdirAll string "error option"
  | EvStorePodLogs string string string "error option"
  | EvStorePipelineRuns string "error option"
  | EvPrintf string

record 'w state =
  world :: 'w
  trace :: "event list"

definition kubeGet ::
  "'w hasFactory \<Rightarrow> string \<Rightarrow> string \<Rightarrow> 'w state \<Rightarrow> (error + Application) \<times> 'w state" where
  "kubeGet h name namespace s =
     (case Get (KubeRest h) name namespace (world s) of
        (r, w) \<Rightarrow> (r, \<lparr>world = w, trace = trace s @ [EvGet name namespace r]\<rparr>))"

definition kubeCreate ::
  "'w hasFactory \<Rightarrow> Application \<Rightarrow> 'w state \<Rightarrow> (error + Application) \<times> 'w state" where
  "kubeCreate h obj s =
     (case Create (KubeRest h) obj (world s) of
        (r, w) \<Rightarrow> (r, \<lparr>world = w, trace = trace s @ [EvCreate obj r]\<rparr>))"

definition kubeDelete ::
  "'w hasFactory \<Rightarrow> Application \<Rightarrow> 'w state \<Rightarrow> error option \<times> 'w state" where
  "kubeDelete h obj s =
     (case Delete (KubeRest h) obj (world s) of
        (r, w) \<Rightarrow> (r, \<lparr>world = w, trace = trace s @ [EvDelete obj r]\<rparr>))"

definition kubeDeleteAllOf ::
  "'w hasFactory \<Rightarrow> string \<Rightarrow> 'w state \<Rightarrow> error option \<times> 'w state" where
  "kubeDeleteAllOf h namespace s =
     (case DeleteAllOf (KubeRest h) namespace (world s) of
        (r, w) \<Rightarrow> (r, \<lparr>world = w, trace = trace s @ [EvDeleteAllOf namespace r]\<rparr>))"

definition kubeList ::
  "'w hasFactory \<Rightarrow> string \<Rightarrow> 'w state \<Rightarrow> (error + Application list) \<times> 'w state" where
  "kubeList h namespace s =
     (case List (KubeRest h) namespace (world s) of
        (r, w) \<Rightarrow> (r, \<lparr>world = w, trace = trace s @ [EvList namespace r]\<rparr>))"

section \<open>The utils package: polling\<close>

text \<open>
  What the helpers use of package \<open>utils\<close>. The interval of the poll loop and the JSON
  printer are parameters; \<open>Sleep\<close> is what the passing of time does to the cluster.
\<close>

record 'w utils =
  pollInterval :: Duration
  Sleep :: "Duration \<Rightarrow> 'w \<Rightarrow> 'w"
  ToPrettyJSONString :: "Application \<Rightarrow> string"

definition timeSleep :: "'w utils \<Rightarrow> Duration \<Rightarrow> 'w state \<Rightarrow> 'w state" where
  "timeSleep u d s = \<lparr>world = Sleep u d (world s), trace = trace s @ [EvSleep d]\<rparr>"

text \<open>
  A \<open>wait.ConditionFunc\<close> is a closure: \<open>'l\<close> is the variable it captures by pointer
  and may assign, returned with the new state.
\<close>

type_synonym ('l, 'w) ConditionFunc = "'l \<Rightarrow> 'w state \<Rightarrow> (bool \<times> error option) \<times> 'l \<times> 'w state"

text \<open>
  Modelled from the spec: \<open>utils.WaitUntil\<close>, which is not among the source files. The
  spec's poll loop evaluates the condition at a fixed interval until (a) it returns true:
  success, (b) it returns a non-nil error: immediate failure, or (c) the deadline
  elapses: timeout failure. The cases are tried in that order after each evaluation, so
  the condition is evaluated at least once, also when the timeout is zero or negative.
  \<open>elapsed\<close> is the time slept since the loop began; the deadline has elapsed when it
  has reached the timeout. The spec gives the interval no value, so it is the parameter
  \<open>pollInterval\<close>. A loop that never ends has the value \<open>None\<close>.
\<close>

partial_function (option) pollLoop ::
  "'w utils \<Rightarrow> ('l, 'w) ConditionFunc \<Rightarrow> Duration \<Rightarrow> Duration \<Rightarrow> 'l \<Rightarrow> 'w state
     \<Rightarrow> (error option \<times> 'l \<times> 'w state) option" where
  "pollLoop u cond timeout elapsed l s =
     (case cond l s of
        ((done, err), l', s') \<Rightarrow>
          if done then Some (None, l', s')
          else if err \<noteq> None then Some (err, l', s')
          else if timeout \<le> elapsed then Some (Some ErrWaitTimeout, l', s')
          else pollLoop u cond timeout (elapsed + pollInterval u) l'
                 (timeSleep u (pollInterval u) s'))"

text \<open>
  Modelled from the spec: \<open>utils.WaitUntil(cond, timeout)\<close>, the poll loop started with
  nothing slept yet. It returns the error (nil on success), the captured variable and the
  state.
\<close>

definition WaitUntil ::
  "'w utils \<Rightarrow> ('l, 'w) ConditionFunc \<Rightarrow> Duration \<Rightarrow> 'l \<Rightarrow> 'w state
     \<Rightarrow> (error option \<times> 'l \<times> 'w state) option" where
  "WaitUntil u cond timeout l s = pollLoop u cond timeout 0 l s"

text \<open>The error of a finished wait, as the callers return it.\<close>

definition waitResult :: "(error option \<times> 'l \<times> 'w state) option \<Rightarrow> (error option \<times> 'w state) option" where
  "waitResult r = (case r of None \<Rightarrow> None | Some (err, l, s) \<Rightarrow> Some (err, s))"

section \<open>Applications: create, get, delete\<close>

text \<open>
  The functions of \<open>applications.go\<close>. A function that returns \<open>(*Application, error)\<close>
  returns a pair of options, \<open>None\<close> for nil. The functions that wait return \<open>None\<close> when
  the wait never ends.
\<close>

definition GetApplication ::
  "'w hasFactory \<Rightarrow> string \<Rightarrow> string \<Rightarrow> 'w state \<Rightarrow> (error + Application) \<times> 'w state" where
  "GetApplication h name namespace s =
     (case kubeGet h name namespace s of
        (Inl err, s') \<Rightarrow> (Inl err, s')
      | (Inr application, s') \<Rightarrow> (Inr application, s'))"

definition ApplicationDevfilePresent :: "'w hasFactory \<Rightarrow> (Application, 'w) ConditionFunc" where
  "ApplicationDevfilePresent h application s =
     (case GetApplication h (Name application) (Namespace application) s of
        (Inl err, s') \<Rightarrow> ((False, None), application, s')
      | (Inr app, s') \<Rightarrow>
          (let application' = application\<lparr>Status := Status app\<rparr>
           in ((Devfile (Status application') \<noteq> '''', None), application', s')))"

definition refreshApplicationForErrorDebug ::
  "'w hasFactory \<Rightarrow> Application \<Rightarrow> 'w state \<Rightarrow> Application \<times> 'w state" where
  "refreshApplicationForErrorDebug h application s =
     (case kubeGet h (Name application) (Namespace application) s of
        (Inl err, s') \<Rightarrow> (application, s')
      | (Inr retApp, s') \<Rightarrow> (retApp, s'))"

text \<open>
  The composite literal \<open>appservice.Application{...}\<close> with a name, a namespace and a
  display name; every other field has its zero value.
\<close>

definition newApplication :: "string \<Rightarrow> string \<Rightarrow> string \<Rightarrow> Application" where
  "newApplication name namespace displayName =
     \<lparr>Name = name, Namespace = namespace,
      Spec = \<lparr>DisplayName = displayName\<rparr>, Status = \<lparr>Devfile = ''''\<rparr>\<rparr>"

text \<open>
  The format of the error that \<open>CreateApplicationWithTimeout\<close> makes with \<open>fmt.Errorf\<close>
  (the misspelling is the source's).
\<close>

definition createTimeoutMessage :: "string \<Rightarrow> string \<Rightarrow> error \<Rightarrow> string \<Rightarrow> string" where
  "createTimeoutMessage name namespace err json =
     ''timed out when waiting for devfile content creation for application '' @ name
       @ '' in '' @ namespace @ '' namespace: '' @ Error err
       @ ''. applicattion: '' @ json"

definition CreateApplicationWithTimeout ::
  "'w hasFactory \<Rightarrow> 'w utils \<Rightarrow> string \<Rightarrow> string \<Rightarrow> Duration \<Rightarrow> 'w state
     \<Rightarrow> ((Application option \<times> error option) \<times> 'w state) option" where
  "CreateApplicationWithTimeout h u name namespace timeout s =
     (case kubeCreate h (newApplication name namespace name) s of
        (Inl err, s1) \<Rightarrow> Some ((None, Some err), s1)
      | (Inr application, s1) \<Rightarrow>
          (case WaitUntil u (ApplicationDevfilePresent h) timeout application s1 of
             None \<Rightarrow> None
           | Some (Some err, application', s2) \<Rightarrow>
               (case refreshApplicationForErrorDebug h application' s2 of
                  (application'', s3) \<Rightarrow>
                    Some ((None,
                           Some (ErrorString (createTimeoutMessage name namespace err
                                   (ToPrettyJSONString u application'')))), s3))
           | Some (None, application', s2) \<Rightarrow> Some ((Some application', None), s2)))"

definition CreateApplication ::
  "'w hasFactory \<Rightarrow> 'w utils \<Rightarrow> string \<Rightarrow> string \<Rightarrow> 'w state
     \<Rightarrow> ((Application option \<times> error option) \<times> 'w state) option" where
  "CreateApplication h u name namespace s =
     CreateApplicationWithTimeout h u name namespace (Minute * 10) s"

definition ApplicationDeleted :: "'w hasFactory \<Rightarrow> (Application, 'w) ConditionFunc" where
  "ApplicationDeleted h application s =
     (case GetApplication h (Name application) (Namespace application) s of
        (Inl err, s') \<Rightarrow> ((IsNotFound err, None), application, s')
      | (Inr app, s') \<Rightarrow> ((False, None), application, s'))"

definition DeleteApplication ::
  "'w hasFactory \<Rightarrow> 'w utils \<Rightarrow> string \<Rightarrow> string \<Rightarrow> bool \<Rightarrow> 'w state
     \<Rightarrow> (error option \<times> 'w state) option" where
  "DeleteApplication h u name namespace reportErrorOnNotFound s =
     (let application = newApplication name namespace ''''
      in case kubeDelete h application s of
           (Some err, s1) \<Rightarrow>
             if \<not> IsNotFound err \<or> (IsNotFound err \<and> reportErrorOnNotFound)
             then Some (Some (ErrorString (''error deleting an application: '' @ Error err)), s1)
             else waitResult (WaitUntil u (ApplicationDeleted h) (1 * Minute) application s1)
         | (None, s1) \<Rightarrow>
             waitResult (WaitUntil u (ApplicationDeleted h) (1 * Minute) application s1))"

text \<open>
  The anonymous condition of \<open>DeleteAllApplicationsInASpecificNamespace\<close>; it captures
  \<open>applicationList\<close>, which a successful \<open>List\<close> fills.
\<close>

definition applicationListEmpty :: "'w hasFactory \<Rightarrow> string \<Rightarrow> (Application list, 'w) ConditionFunc" where
  "applicationListEmpty h namespace applicationList s =
     (case kubeList h namespace s of
        (Inl err, s') \<Rightarrow> ((False, None), applicationList, s')
      | (Inr items, s') \<Rightarrow> ((length items = 0, None), items, s'))"

definition DeleteAllApplicationsInASpecificNamespace ::
  "'w hasFactory \<Rightarrow> 'w utils \<Rightarrow> string \<Rightarrow> Duration \<Rightarrow> 'w state
     \<Rightarrow> (error option \<times> 'w state) option" where
  "DeleteAllApplicationsInASpecificNamespace h u namespace timeout s =
     (case kubeDeleteAllOf h namespace s of
        (Some err, s1) \<Rightarrow>
          Some (Some (ErrorString (''error deleting applications from the namespace ''
                        @ namespace @ '': '' @ Error err)), s1)
      | (None, s1) \<Rightarrow>
          waitResult (WaitUntil u (applicationListEmpty h namespace) timeout [] s1))"

section \<open>Collecting the logs of a test\<close>

text \<open>
  What \<open>StoreTestLogs\<close> calls: the working directory and \<open>MkdirAll\<close> of package
  \<open>os\<close>, \<open>GetEnv\<close> of package \<open>utils\<close>, and the two controllers' exports. The
  Ginkgo writer is the trace's \<open>EvPrintf\<close>.
\<close>

record 'w commonSuiteController =
  StorePodLogs :: "string \<Rightarrow> string \<Rightarrow> string \<Rightarrow> 'w \<Rightarrow> error option \<times> 'w"

record 'w tektonSuiteController =
  StorePipelineRuns :: "string \<Rightarrow> 'w commonSuiteController \<Rightarrow> 'w \<Rightarrow> error option \<times> 'w"

record 'w osEnv =
  Getwd :: "'w \<Rightarrow> string"
  GetEnv :: "string \<Rightarrow> string \<Rightarrow> 'w \<Rightarrow> string"
  MkdirAll :: "string \<Rightarrow> 'w \<Rightarrow> error option \<times> 'w"

definition osMkdirAll :: "'w osEnv \<Rightarrow> string \<Rightarrow> 'w state \<Rightarrow> error option \<times> 'w state" where
  "osMkdirAll os path s =
     (case MkdirAll os path (world s) of
        (r, w) \<Rightarrow> (r, \<lparr>world = w, trace = trace s @ [EvMkdirAll path r]\<rparr>))"

definition csStorePodLogs ::
  "'w commonSuiteController \<Rightarrow> string \<Rightarrow> string \<Rightarrow> string \<Rightarrow> 'w state \<Rightarrow> error option \<times> 'w state" where
  "csStorePodLogs cs namespace jobName dir s =
     (case StorePodLogs cs namespace jobName dir (world s) of
        (r, w) \<Rightarrow> (r, \<lparr>world = w, trace = trace s @ [EvStorePodLogs namespace jobName dir r]\<rparr>))"

definition tStorePipelineRuns ::
  "'w tektonSuiteController \<Rightarrow> string \<Rightarrow> 'w commonSuiteController \<Rightarrow> 'w state
     \<Rightarrow> error option \<times> 'w state" where
  "tStorePipelineRuns t namespace cs s =
     (case StorePipelineRuns t namespace cs (world s) of
        (r, w) \<Rightarrow> (r, \<lparr>world = w, trace = trace s @ [EvStorePipelineRuns namespace r]\<rparr>))"

definition GinkgoWriterPrintf :: "string \<Rightarrow> 'w state \<Rightarrow> 'w state" where
  "GinkgoWriterPrintf msg s = s\<lparr>trace := trace s @ [EvPrintf msg]\<rparr>"

text \<open>
  The first three statements of \<open>StoreTestLogs\<close>: the directory of the test's logs. The
  error of \<open>os.Getwd\<close> is dropped, as the source drops it.
\<close>

definition testLogsDir :: "'w osEnv \<Rightarrow> string \<Rightarrow> 'w \<Rightarrow> string" where
  "testLogsDir os testNamespace w =
     (let wd = Getwd os w;
          artifactDir = GetEnv os ''ARTIFACT_DIR'' (wd @ ''/tmp'') w
      in artifactDir @ ''/'' @ testNamespace)"

definition StoreTestLogs ::
  "'w osEnv \<Rightarrow> string \<Rightarrow> string \<Rightarrow> 'w commonSuiteController \<Rightarrow> 'w tektonSuiteController
     \<Rightarrow> 'w state \<Rightarrow> error option \<times> 'w state" where
  "StoreTestLogs os testNamespace jobName cs t s =
     (let dir = testLogsDir os testNamespace (world s)
      in case osMkdirAll os dir s of
           (Some err, s1) \<Rightarrow> (Some err, s1)
         | (None, s1) \<Rightarrow>
             (let s3 = (case csStorePodLogs cs testNamespace jobName dir s1 of
                          (Some err, s2) \<Rightarrow>
                            GinkgoWriterPrintf (''Failed to store pod logs: '' @ Error err) s2
                        | (None, s2) \<Rightarrow> s2);
                  s5 = (case tStorePipelineRuns t testNamespace cs s3 of
                          (Some err, s4) \<Rightarrow>
                            GinkgoWriterPrintf (''Failed to store pipelineRun logs: '' @ Error err) s4
                        | (None, s4) \<Rightarrow> s4)
              in (None, s5)))"

section \<open>Time slept\<close>

text \<open>The total time a trace has spent sleeping.\<close>

fun slept :: "event list \<Rightarrow> Duration" where
  "slept [] = 0"
| "slept (EvSleep d # evs) = d + slept evs"
| "slept (ev # evs) = slept evs"

section \<open>A scripted cluster\<close>

text \<open>
  Concrete collaborators on which the helpers can be run. The state of the scripted
  cluster is its clock; sleeping advances it. An application created in
  \<open>creatingCluster\<close> gets its devfile at \<open>readyAt\<close>; the applications of
  \<open>deletingCluster\<close> are gone from \<open>goneAt\<close> on.
\<close>

definition fakeUtils :: "Duration \<Rightarrow> Duration utils" where
  "fakeUtils interval =
     \<lparr>pollInterval = interval,
      Sleep = (\<lambda>d w. w + d),
      ToPrettyJSONString = (\<lambda>a. ''{name: '' @ Name a @ '', devfile: '' @ Devfile (Status a) @ ''}'')\<rparr>"

definition notFound :: error where
  "notFound = StatusError StatusReasonNotFound ''not found''"

definition creatingCluster :: "error option \<Rightarrow> Duration \<Rightarrow> Duration hasFactory" where
  "creatingCluster createErr readyAt =
     \<lparr>KubeRest =
        \<lparr>Get = (\<lambda>name namespace w.
                  (Inr ((newApplication name namespace name)
                          \<lparr>Status := \<lparr>Devfile = (if readyAt \<le> w then ''schemaVersion: 2.2.0'' else '''')\<rparr>\<rparr>), w)),
         Create = (\<lambda>obj w. (case createErr of Some e \<Rightarrow> Inl e | None \<Rightarrow> Inr obj, w)),
         Delete = (\<lambda>obj w. (None, w)),
         DeleteAllOf = (\<lambda>namespace w. (None, w)),
         List = (\<lambda>namespace w. (Inr [], w))\<rparr>\<rparr>"

definition deletingCluster :: "error option \<Rightarrow> Duration \<Rightarrow> Duration hasFactory" where
  "deletingCluster deleteErr goneAt =
     \<lparr>KubeRest =
        \<lparr>Get = (\<lambda>name namespace w.
                  (if goneAt \<le> w then Inl notFound else Inr (newApplication name namespace name), w)),
         Create = (\<lambda>obj w. (Inr obj, w)),
         Delete = (\<lambda>obj w. (deleteErr, w)),
         DeleteAllOf = (\<lambda>namespace w. (deleteErr, w)),
         List = (\<lambda>namespace w.
                  (Inr (if goneAt \<le> w then [] else [newApplication ''app'' namespace ''app'']), w))\<rparr>\<rparr>"

definition fakeOs :: "bool \<Rightarrow> unit osEnv" where
  "fakeOs ok =
     \<lparr>Getwd = (\<lambda>w. ''/work''),
      GetEnv = (\<lambda>key dflt w. dflt),
      MkdirAll = (\<lambda>path w. (if ok then None else Some (PathError path ''not a directory''), w))\<rparr>"

definition failingCs :: "unit commonSuiteController" where
  "failingCs = \<lparr>StorePodLogs = (\<lambda>namespace jobName dir w. (Some (ErrorString ''no pods''), w))\<rparr>"

definition failingT :: "unit tektonSuiteController" where
  "failingT = \<lparr>StorePipelineRuns = (\<lambda>namespace cs w. (Some (ErrorString ''no pipelineruns''), w))\<rparr>"

definition initial :: "'w \<Rightarrow> 'w state" where
  "initial w = \<lparr>world = w, trace = []\<rparr>"

section \<open>The poll loop\<close>

text \<open>
  The loop is a least fixed point, so its properties are proved by an induction over its
  unfoldings: a property that holds where the loop stops, and is carried back over every
  sleep, holds of every run that ends.
\<close>

lemma pollLoop_induct_aux:
  assumes stop: "\<And>elapsed l s d e l' s'. cond l s = ((d, e), l', s') \<Longrightarrow>
        d \<or> e \<noteq> None \<or> timeout \<le> elapsed \<Longrightarrow>
        P elapsed l s (if d then None else if e \<noteq> None then e else Some ErrWaitTimeout, l', s')"
    and step: "\<And>elapsed l s l' s' res. cond l s = ((False, None), l', s') \<Longrightarrow>
        \<not> timeout \<le> elapsed \<Longrightarrow>
        P (elapsed + pollInterval u) l' (timeSleep u (pollInterval u) s') res \<Longrightarrow>
        P elapsed l s res"
    and run: "pollLoop u0 cond0 timeout0 elapsed0 l0 s0 = Some res0"
  shows "u0 = u \<and> cond0 = cond \<and> timeout0 = timeout \<longrightarrow> P elapsed0 l0 s0 res0"
proof (rule pollLoop.raw_induct[where P = "\<lambda>u' cond' timeout' elapsed l s res.
          u' = u \<and> cond' = cond \<and> timeout' = timeout \<longrightarrow> P elapsed l s res", OF _ run],
       goal_cases)
  case (1 pl u' cond' timeout' elapsed l s res)
  show ?case
  proof
    assume eq: "u' = u \<and> cond' = cond \<and> timeout' = timeout"
    obtain d e l' s' where c: "cond l s = ((d, e), l', s')"
      by (metis prod.exhaust)
    show "P elapsed l s res"
    proof (cases "d \<or> e \<noteq> None \<or> timeout \<le> elapsed")
      case True
      with 1(2) c eq
      have "res = (if d then None else if e \<noteq> None then e else Some ErrWaitTimeout, l', s')"
        by (auto split: if_splits)
      with stop[OF c True] show ?thesis by simp
    next
      case False
      with 1(2) c eq
      have r: "pl u cond timeout (elapsed + pollInterval u) l' (timeSleep u (pollInterval u) s') = Some res"
        by simp
      from False c have c': "cond l s = ((False, None), l', s')" by simp
      show ?thesis
      proof (rule step[OF c'])
        show "\<not> timeout \<le> elapsed" using False by simp
        show "P (elapsed + pollInterval u) l' (timeSleep u (pollInterval u) s') res"
          using 1(1)[OF r] by simp
      qed
    qed
  qed
qed

lemma pollLoop_induct_rule [consumes 1, case_names stop step]:
  assumes run: "pollLoop u cond timeout elapsed l s = Some res"
    and stop: "\<And>elapsed l s d e l' s'. cond l s = ((d, e), l', s') \<Longrightarrow>
        d \<or> e \<noteq> None \<or> timeout \<le> elapsed \<Longrightarrow>
        P elapsed l s (if d then None else if e \<noteq> None then e else Some ErrWaitTimeout, l', s')"
    and step: "\<And>elapsed l s l' s' res. cond l s = ((False, None), l', s') \<Longrightarrow>
        \<not> timeout \<le> elapsed \<Longrightarrow>
        P (elapsed + pollInterval u) l' (timeSleep u (pollInterval u) s') res \<Longrightarrow>
        P elapsed l s res"
  shows "P elapsed l s res"
  using pollLoop_induct_aux[where P = P and u = u and cond = cond and timeout = timeout, OF stop step run]
  by simp

lemma pollLoop_stop:
  assumes "cond l s = ((d, e), l', s')" and "d \<or> e \<noteq> None \<or> timeout \<le> elapsed"
  shows "pollLoop u cond timeout elapsed l s =
           Some (if d then None else if e \<noteq> None then e else Some ErrWaitTimeout, l', s')"
  using assms by (subst pollLoop.simps) auto

lemma pollLoop_continue:
  assumes "cond l s = ((False, None), l', s')" and "\<not> timeout \<le> elapsed"
  shows "pollLoop u cond timeout elapsed l s =
           pollLoop u cond timeout (elapsed + pollInterval u) l' (timeSleep u (pollInterval u) s')"
  using assms by (subst pollLoop.simps) simp

lemma pollLoop_total:
  assumes "0 < pollInterval u"
  shows "\<exists>r. pollLoop u cond timeout elapsed l s = Some r"
proof (induction "nat (timeout - elapsed)" arbitrary: elapsed l s rule: less_induct)
  case less
  obtain d e l' s' where c: "cond l s = ((d, e), l', s')"
    by (metis prod.exhaust)
  show ?case
  proof (cases "d \<or> e \<noteq> None \<or> timeout \<le> elapsed")
    case True
    from pollLoop_stop[of cond l s d e l' s' timeout elapsed u] c True show ?thesis
      by (intro exI) simp
  next
    case False
    then have "nat (timeout - (elapsed + pollInterval u)) < nat (timeout - elapsed)"
      using assms by linarith
    from less[OF this] obtain r where
      "pollLoop u cond timeout (elapsed + pollInterval u) l' (timeSleep u (pollInterval u) s') = Some r"
      by blast
    moreover from False c have "cond l s = ((False, None), l', s')" by simp
    ultimately have "pollLoop u cond timeout elapsed l s = Some r"
      using False pollLoop_continue[of cond l s l' s' timeout elapsed u] by simp
    then show ?thesis by (rule exI)
  qed
qed

lemma WaitUntil_total:
  "0 < pollInterval u \<Longrightarrow> \<exists>r. WaitUntil u cond timeout l s = Some r"
  unfolding WaitUntil_def by (rule pollLoop_total)

lemma WaitUntil_expired:
  assumes "cond l s = ((False, None), l', s')" and "timeout \<le> 0"
  shows "WaitUntil u cond timeout l s = Some (Some ErrWaitTimeout, l', s')"
  unfolding WaitUntil_def using pollLoop_stop[of cond l s False None l' s' timeout 0 u] assms by simp


text \<open>A condition that never reports an error makes the loop end in success or timeout.\<close>

lemma pollLoop_no_error:
  assumes run: "pollLoop u cond timeout elapsed l s = Some (r, l', s')"
    and ne: "\<And>l s. snd (fst (cond l s)) = None"
  shows "r = None \<or> r = Some ErrWaitTimeout"
proof -
  have "fst res = None \<or> fst res = Some ErrWaitTimeout"
    if "pollLoop u cond timeout elapsed l s = Some res" for res
    using that
  proof (induction rule: pollLoop_induct_rule)
    case (stop elapsed l s d e l' s')
    with ne[of l s] show ?case by auto
  next
    case (step elapsed l s l' s' res)
    then show ?case by simp
  qed
  from this[OF run] show ?thesis by simp
qed

section \<open>Sleeping and the deadline\<close>

text \<open>
  When the condition never reports an error and never sleeps itself, a loop that gives
  up has slept for at least its timeout.
\<close>

lemma slept_append: "slept (xs @ ys) = slept xs + slept ys"
  by (induction xs rule: slept.induct) simp_all

lemma pollLoop_deadline:
  assumes run: "pollLoop u cond timeout elapsed l s = Some (r, l', s')"
    and ne: "\<And>l s. snd (fst (cond l s)) = None"
    and quiet: "\<And>l s. slept (trace (snd (snd (cond l s)))) = slept (trace s)"
  shows "r \<noteq> None \<longrightarrow> timeout \<le> elapsed + (slept (trace s') - slept (trace s))"
proof -
  have "fst res \<noteq> None \<longrightarrow> timeout \<le> elapsed + (slept (trace (snd (snd res))) - slept (trace s))"
    if "pollLoop u cond timeout elapsed l s = Some res" for res
    using that
  proof (induction rule: pollLoop_induct_rule)
    case (stop elapsed l s d e l' s')
    with ne[of l s] quiet[of l s] show ?case by auto
  next
    case (step elapsed l s l' s' res)
    with quiet[of l s] show ?case
      by (auto simp: timeSleep_def slept_append)
  qed
  from this[OF run] show ?thesis by simp
qed

section \<open>One evaluation of each condition\<close>

text \<open>
  Each condition makes exactly one call to the cluster; what it returns is a function of
  what that call returned.
\<close>

lemma kubeGet_eval:
  "Get (KubeRest h) name namespace (world s) = (r, w) \<Longrightarrow>
   kubeGet h name namespace s = (r, \<lparr>world = w, trace = trace s @ [EvGet name namespace r]\<rparr>)"
  by (simp add: kubeGet_def)

lemma ApplicationDevfilePresent_eval:
  assumes "Get (KubeRest h) (Name application) (Namespace application) (world s) = (r, w)"
  shows "ApplicationDevfilePresent h application s =
           ((case r of Inl err \<Rightarrow> False | Inr app \<Rightarrow> Devfile (Status app) \<noteq> '''', None),
            (case r of Inl err \<Rightarrow> application | Inr app \<Rightarrow> application\<lparr>Status := Status app\<rparr>),
            \<lparr>world = w,
             trace = trace s @ [EvGet (Name application) (Namespace application) r]\<rparr>)"
  using assms
  by (cases r) (simp_all add: ApplicationDevfilePresent_def GetApplication_def kubeGet_def Let_def)

lemma ApplicationDeleted_eval:
  assumes "Get (KubeRest h) (Name application) (Namespace application) (world s) = (r, w)"
  shows "ApplicationDeleted h application s =
           ((case r of Inl err \<Rightarrow> IsNotFound err | Inr app \<Rightarrow> False, None), application,
            \<lparr>world = w,
             trace = trace s @ [EvGet (Name application) (Namespace application) r]\<rparr>)"
  using assms
  by (cases r) (simp_all add: ApplicationDeleted_def GetApplication_def kubeGet_def)

lemma refreshApplicationForErrorDebug_eval:
  assumes "Get (KubeRest h) (Name application) (Namespace application) (world s) = (r, w)"
  shows "refreshApplicationForErrorDebug h application s =
           ((case r of Inl err \<Rightarrow> application | Inr retApp \<Rightarrow> retApp),
            \<lparr>world = w,
             trace = trace s @ [EvGet (Name application) (Namespace application) r]\<rparr>)"
  using assms
  by (cases r) (simp_all add: refreshApplicationForErrorDebug_def kubeGet_def)


lemma ApplicationDevfilePresent_no_error: "snd (fst (ApplicationDevfilePresent h a s)) = None"
  by (cases "Get (KubeRest h) (Name a) (Namespace a) (world s)")
     (simp add: ApplicationDevfilePresent_eval split: sum.split)

lemma ApplicationDeleted_no_error: "snd (fst (ApplicationDeleted h a s)) = None"
  by (cases "Get (KubeRest h) (Name a) (Namespace a) (world s)")
     (simp add: ApplicationDeleted_eval split: sum.split)


lemma WaitUntil_no_error:
  assumes "WaitUntil u cond timeout l s = Some (r, l', s')"
    and "\<And>l s. snd (fst (cond l s)) = None"
  shows "r = None \<or> r = Some ErrWaitTimeout"
  using assms unfolding WaitUntil_def by (rule pollLoop_no_error)

lemma ApplicationDeleted_quiet: "slept (trace (snd (snd (ApplicationDeleted h a s)))) = slept (trace s)"
  by (cases "Get (KubeRest h) (Name a) (Namespace a) (world s)")
     (simp add: ApplicationDeleted_eval slept_append)


section \<open>What a finished poll has seen\<close>



section \<open>Running the helpers on the scripted cluster\<close>

text \<open>The equations that evaluate a run on the scripted cluster.\<close>

lemmas run_defs = WaitUntil_def pollLoop.simps ApplicationDevfilePresent_def ApplicationDeleted_def
  applicationListEmpty_def GetApplication_def kubeGet_def kubeCreate_def kubeDelete_def
  kubeDeleteAllOf_def kubeList_def refreshApplicationForErrorDebug_def
  CreateApplicationWithTimeout_def DeleteApplication_def
  DeleteAllApplicationsInASpecificNamespace_def createTimeoutMessage_def
  creatingCluster_def deletingCluster_def fakeUtils_def newApplication_def initial_def
  timeSleep_def Second_def Minute_def Let_def notFound_def waitResult_def

section \<open>Collecting logs is best effort\<close>

text \<open>
  C1. Let \<open>merr\<close> be what creating the per-namespace log directory returns.
  \<open>StoreTestLogs\<close> returns exactly \<open>merr\<close>: nil when the directory was created,
  whatever the two exports return, and the directory error otherwise. When the
  directory cannot be created nothing but \<open>MkdirAll\<close> was called; when it can, both
  exports are called, in order, and each failure only adds a line to the Ginkgo writer.
\<close>

theorem StoreTestLogs_only_mkdir_is_fatal:
  assumes mk: "MkdirAll os (testLogsDir os testNamespace (world s)) (world s) = (merr, w1)"
    and pods: "StorePodLogs cs testNamespace jobName (testLogsDir os testNamespace (world s)) w1 = (perr, w2)"
    and runs: "StorePipelineRuns t testNamespace cs w2 = (rerr, w3)"
  shows "fst (StoreTestLogs os testNamespace jobName cs t s) = merr \<and>
         (merr \<noteq> None \<longrightarrow>
            snd (StoreTestLogs os testNamespace jobName cs t s) =
              \<lparr>world = w1,
               trace = trace s @ [EvMkdirAll (testLogsDir os testNamespace (world s)) merr]\<rparr>) \<and>
         (merr = None \<longrightarrow>
            snd (StoreTestLogs os testNamespace jobName cs t s) =
              \<lparr>world = w3,
               trace = trace s
                 @ [EvMkdirAll (testLogsDir os testNamespace (world s)) None,
                    EvStorePodLogs testNamespace jobName (testLogsDir os testNamespace (world s)) perr]
                 @ (case perr of None \<Rightarrow> []
                    | Some err \<Rightarrow> [EvPrintf (''Failed to store pod logs: '' @ Error err)])
                 @ [EvStorePipelineRuns testNamespace rerr]
                 @ (case rerr of None \<Rightarrow> []
                    | Some err \<Rightarrow> [EvPrintf (''Failed to store pipelineRun logs: '' @ Error err)])\<rparr>)"
proof (cases merr)
  case None
  with mk pods runs show ?thesis
    by (cases perr; cases rerr)
       (simp_all add: StoreTestLogs_def osMkdirAll_def csStorePodLogs_def tStorePipelineRuns_def
          GinkgoWriterPrintf_def Let_def)
next
  case (Some e)
  with mk show ?thesis
    by (simp add: StoreTestLogs_def osMkdirAll_def Let_def)
qed

theorem StoreTestLogs_only_mkdir_is_fatal_witness:
  "StoreTestLogs (fakeOs True) ''ns1'' ''job'' failingCs failingT (initial ()) =
     (None, \<lparr>world = (),
             trace = [EvMkdirAll ''/work/tmp/ns1'' None,
                      EvStorePodLogs ''ns1'' ''job'' ''/work/tmp/ns1'' (Some (ErrorString ''no pods'')),
                      EvPrintf ''Failed to store pod logs: no pods'',
                      EvStorePipelineRuns ''ns1'' (Some (ErrorString ''no pipelineruns'')),
                      EvPrintf ''Failed to store pipelineRun logs: no pipelineruns'']\<rparr>) \<and>
   StoreTestLogs (fakeOs False) ''ns1'' ''job'' failingCs failingT (initial ()) =
     (Some (PathError ''/work/tmp/ns1'' ''not a directory''),
      \<lparr>world = (),
       trace = [EvMkdirAll ''/work/tmp/ns1'' (Some (PathError ''/work/tmp/ns1'' ''not a directory''))]\<rparr>)"
proof -
  have d: "testLogsDir (fakeOs b) ''ns1'' () = ''/work/tmp/ns1''" for b
    by (simp add: testLogsDir_def fakeOs_def)
  have a: "MkdirAll (fakeOs True) (testLogsDir (fakeOs True) ''ns1'' (world (initial ()))) (world (initial ())) = (None, ())"
    by (simp add: fakeOs_def)
  have b: "MkdirAll (fakeOs False) (testLogsDir (fakeOs False) ''ns1'' (world (initial ()))) (world (initial ()))
             = (Some (PathError ''/work/tmp/ns1'' ''not a directory''), ())"
    by (simp add: fakeOs_def testLogsDir_def)
  have p: "StorePodLogs failingCs ''ns1'' ''job'' (testLogsDir (fakeOs b) ''ns1'' (world (initial ()))) ()
             = (Some (ErrorString ''no pods''), ())" for b
    by (simp add: failingCs_def)
  have r: "StorePipelineRuns failingT ''ns1'' failingCs () = (Some (ErrorString ''no pipelineruns''), ())"
    by (simp add: failingT_def)
  show ?thesis
    using StoreTestLogs_only_mkdir_is_fatal[OF a p r] StoreTestLogs_only_mkdir_is_fatal[OF b p r] d
    by (simp add: initial_def prod_eq_iff)
qed

section \<open>Creating an application\<close>

text \<open>
  C2. When the cluster rejects the \<open>Create\<close> call with an error \<open>e\<close>,
  \<open>CreateApplicationWithTimeout\<close> returns a nil application and \<open>e\<close> itself, not
  wrapped, for every name, namespace and timeout. The trace holds the \<open>Create\<close> call and
  nothing else: no lookup and no sleep, so the poll loop was never entered.
\<close>

theorem CreateApplicationWithTimeout_create_error_unchanged:
  assumes "Create (KubeRest h) (newApplication name namespace name) (world s) = (Inl e, w1)"
  shows "CreateApplicationWithTimeout h u name namespace timeout s =
           Some ((None, Some e),
                 \<lparr>world = w1,
                  trace = trace s @ [EvCreate (newApplication name namespace name) (Inl e)]\<rparr>)"
  using assms by (simp add: CreateApplicationWithTimeout_def kubeCreate_def)

theorem CreateApplicationWithTimeout_create_error_unchanged_witness:
  "CreateApplicationWithTimeout
     (creatingCluster (Some (StatusError StatusReasonAlreadyExists ''already exists'')) 0)
     (fakeUtils Second) ''app'' ''ns1'' (Minute * 10) (initial 0) =
   Some ((None, Some (StatusError StatusReasonAlreadyExists ''already exists'')),
         \<lparr>world = 0,
          trace = [EvCreate (newApplication ''app'' ''ns1'' ''app'')
                     (Inl (StatusError StatusReasonAlreadyExists ''already exists''))]\<rparr>)"
proof -
  have "Create (KubeRest (creatingCluster (Some (StatusError StatusReasonAlreadyExists ''already exists'')) 0))
          (newApplication ''app'' ''ns1'' ''app'') (world (initial 0))
        = (Inl (StatusError StatusReasonAlreadyExists ''already exists''), 0)"
    by (simp add: creatingCluster_def initial_def)
  from CreateApplicationWithTimeout_create_error_unchanged[OF this, of "fakeUtils Second" "Minute * 10"]
  show ?thesis by (simp add: initial_def)
qed



text \<open>
  C3. When \<open>Create\<close> succeeds and the readiness poll ends with an error, that error is the
  timeout of the poll (the condition itself never reports one).
  \<open>CreateApplicationWithTimeout\<close> then looks the application up exactly once more, keeps
  the object the poll held if that lookup fails, and returns a nil application together
  with an error whose message ends with the JSON of that last-known object.
\<close>

theorem CreateApplicationWithTimeout_poll_expired:
  assumes cr: "Create (KubeRest h) (newApplication name namespace name) (world s) = (Inr application, w1)"
    and wt: "WaitUntil u (ApplicationDevfilePresent h) timeout application
               \<lparr>world = w1,
                trace = trace s @ [EvCreate (newApplication name namespace name) (Inr application)]\<rparr>
             = Some (Some err, application', s2)"
    and gt: "Get (KubeRest h) (Name application') (Namespace application') (world s2) = (r, w3)"
  shows "err = ErrWaitTimeout \<and>
         CreateApplicationWithTimeout h u name namespace timeout s =
           Some ((None,
                  Some (ErrorString
                    (''timed out when waiting for devfile content creation for application '' @ name
                       @ '' in '' @ namespace
                       @ '' namespace: timed out waiting for the condition. applicattion: ''
                       @ ToPrettyJSONString u
                           (case r of Inl e \<Rightarrow> application' | Inr retApp \<Rightarrow> retApp)))),
                 \<lparr>world = w3,
                  trace = trace s2 @ [EvGet (Name application') (Namespace application') r]\<rparr>)"
proof -
  from WaitUntil_no_error[OF wt ApplicationDevfilePresent_no_error]
  have e: "err = ErrWaitTimeout" by simp
  from cr wt show ?thesis
    by (simp add: e CreateApplicationWithTimeout_def kubeCreate_def
          refreshApplicationForErrorDebug_eval[OF gt] createTimeoutMessage_def)
qed

theorem CreateApplicationWithTimeout_poll_expired_witness:
  "CreateApplicationWithTimeout (creatingCluster None (3 * Second)) (fakeUtils Second)
     ''app'' ''ns1'' Second (initial 0) =
   Some ((None,
          Some (ErrorString ''timed out when waiting for devfile content creation for application app in ns1 namespace: timed out waiting for the condition. applicattion: {name: app, devfile: }'')),
         \<lparr>world = Second,
          trace = [EvCreate (newApplication ''app'' ''ns1'' ''app'')
                     (Inr (newApplication ''app'' ''ns1'' ''app'')),
                   EvGet ''app'' ''ns1'' (Inr (newApplication ''app'' ''ns1'' ''app'')),
                   EvSleep Second,
                   EvGet ''app'' ''ns1'' (Inr (newApplication ''app'' ''ns1'' ''app'')),
                   EvGet ''app'' ''ns1'' (Inr (newApplication ''app'' ''ns1'' ''app''))]\<rparr>)"
proof -
  let ?h = "creatingCluster None (3 * Second)"
  let ?app = "newApplication ''app'' ''ns1'' ''app''"
  let ?s2 = "\<lparr>world = Second,
              trace = [EvCreate ?app (Inr ?app), EvGet ''app'' ''ns1'' (Inr ?app), EvSleep Second,
                       EvGet ''app'' ''ns1'' (Inr ?app)]\<rparr>"
  have cr: "Create (KubeRest ?h) (newApplication ''app'' ''ns1'' ''app'') (world (initial 0)) = (Inr ?app, 0)"
    by (simp add: creatingCluster_def initial_def)
  have wt: "WaitUntil (fakeUtils Second) (ApplicationDevfilePresent ?h) Second ?app
              \<lparr>world = 0, trace = trace (initial 0) @ [EvCreate (newApplication ''app'' ''ns1'' ''app'') (Inr ?app)]\<rparr>
            = Some (Some ErrWaitTimeout, ?app, ?s2)"
    by (simp add: run_defs)
  have gt: "Get (KubeRest ?h) (Name ?app) (Namespace ?app) (world ?s2) = (Inr ?app, Second)"
    by (simp add: creatingCluster_def newApplication_def Second_def)
  from CreateApplicationWithTimeout_poll_expired[OF cr wt gt]
  show ?thesis
    by (simp add: fakeUtils_def newApplication_def)
qed



text \<open>
  C4. One evaluation of \<open>ApplicationDevfilePresent\<close> returns \<open>(false, nil)\<close> when the
  lookup fails, whatever the lookup error is, and otherwise \<open>(d, nil)\<close> where \<open>d\<close> says
  that the \<open>Status.Devfile\<close> of the application just fetched is not the empty string. It
  never returns an error.
\<close>

theorem ApplicationDevfilePresent_condition:
  assumes "Get (KubeRest h) (Name application) (Namespace application) (world s) = (r, w)"
  shows "fst (ApplicationDevfilePresent h application s) =
           (case r of Inl err \<Rightarrow> (False, None)
            | Inr app \<Rightarrow> (Devfile (Status app) \<noteq> '''', None))"
  using ApplicationDevfilePresent_eval[OF assms] by (cases r) simp_all

theorem ApplicationDevfilePresent_condition_witness:
  "fst (ApplicationDevfilePresent (creatingCluster None Second)
          (newApplication ''app'' ''ns1'' ''app'') (initial 0)) = (False, None) \<and>
   fst (ApplicationDevfilePresent (creatingCluster None Second)
          (newApplication ''app'' ''ns1'' ''app'') (initial Second)) = (True, None) \<and>
   fst (ApplicationDevfilePresent (deletingCluster None 0)
          (newApplication ''app'' ''ns1'' ''app'') (initial 0)) = (False, None)"
proof -
  have a: "Get (KubeRest (creatingCluster None Second)) (Name (newApplication ''app'' ''ns1'' ''app''))
             (Namespace (newApplication ''app'' ''ns1'' ''app'')) (world (initial 0))
           = (Inr (newApplication ''app'' ''ns1'' ''app''), 0)"
    by (simp add: creatingCluster_def initial_def newApplication_def Second_def)
  have b: "Get (KubeRest (creatingCluster None Second)) (Name (newApplication ''app'' ''ns1'' ''app''))
             (Namespace (newApplication ''app'' ''ns1'' ''app'')) (world (initial Second))
           = (Inr ((newApplication ''app'' ''ns1'' ''app'')\<lparr>Status := \<lparr>Devfile = ''schemaVersion: 2.2.0''\<rparr>\<rparr>), Second)"
    by (simp add: creatingCluster_def initial_def newApplication_def)
  have c: "Get (KubeRest (deletingCluster None 0)) (Name (newApplication ''app'' ''ns1'' ''app''))
             (Namespace (newApplication ''app'' ''ns1'' ''app'')) (world (initial 0))
           = (Inl notFound, 0)"
    by (simp add: deletingCluster_def initial_def)
  show ?thesis
    using ApplicationDevfilePresent_condition[OF a] ApplicationDevfilePresent_condition[OF b]
      ApplicationDevfilePresent_condition[OF c]
    by (simp add: newApplication_def)
qed

section \<open>Deleting an application\<close>











section \<open>Timeouts\<close>

text \<open>
  C8. Let the timeout be zero or negative, let \<open>Create\<close> succeed, and let the first
  evaluation of the readiness condition find the application not ready (the lookup fails,
  or the devfile is empty). Then \<open>CreateApplicationWithTimeout\<close> returns: a nil
  application with the timeout error, after that one evaluation and the diagnostic lookup,
  and without sleeping at all. Moreover, with a positive poll interval
  \<open>CreateApplicationWithTimeout\<close> returns for every timeout.
\<close>

theorem CreateApplicationWithTimeout_nonpositive_timeout:
  assumes to: "timeout \<le> 0"
    and cr: "Create (KubeRest h) (newApplication name namespace name) (world s) = (Inr application, w1)"
    and g1: "Get (KubeRest h) (Name application) (Namespace application) w1 = (r1, w2)"
    and nr: "\<not> (case r1 of Inl err \<Rightarrow> False | Inr app \<Rightarrow> Devfile (Status app) \<noteq> '''')"
    and g2: "Get (KubeRest h) (Name application) (Namespace application) w2 = (r2, w3)"
  shows "CreateApplicationWithTimeout h u name namespace timeout s =
           Some ((None,
                  Some (ErrorString
                    (''timed out when waiting for devfile content creation for application '' @ name
                       @ '' in '' @ namespace
                       @ '' namespace: timed out waiting for the condition. applicattion: ''
                       @ ToPrettyJSONString u
                           (case r2 of
                              Inl e \<Rightarrow> (case r1 of Inl e \<Rightarrow> application
                                        | Inr app \<Rightarrow> application\<lparr>Status := Status app\<rparr>)
                            | Inr retApp \<Rightarrow> retApp)))),
                 \<lparr>world = w3,
                  trace = trace s @ [EvCreate (newApplication name namespace name) (Inr application),
                                     EvGet (Name application) (Namespace application) r1,
                                     EvGet (Name application) (Namespace application) r2]\<rparr>) \<and>
         (0 < pollInterval u \<longrightarrow>
            (\<forall>t. \<exists>res. CreateApplicationWithTimeout h u name namespace t s = Some res))"
proof -
  let ?s1 = "\<lparr>world = w1,
              trace = trace s @ [EvCreate (newApplication name namespace name) (Inr application)]\<rparr>"
  let ?app' = "case r1 of Inl e \<Rightarrow> application | Inr app \<Rightarrow> application\<lparr>Status := Status app\<rparr>"
  let ?s2 = "\<lparr>world = w2, trace = trace ?s1 @ [EvGet (Name application) (Namespace application) r1]\<rparr>"
  have nm: "Name ?app' = Name application" "Namespace ?app' = Namespace application"
    by (cases r1; simp)+
  from g1 have "Get (KubeRest h) (Name application) (Namespace application) (world ?s1) = (r1, w2)"
    by simp
  from ApplicationDevfilePresent_eval[OF this] nr
  have c: "ApplicationDevfilePresent h application ?s1 = ((False, None), ?app', ?s2)"
    by simp
  have w: "WaitUntil u (ApplicationDevfilePresent h) timeout application ?s1
             = Some (Some ErrWaitTimeout, ?app', ?s2)"
    using WaitUntil_expired[where cond = "ApplicationDevfilePresent h" and l = application
        and s = ?s1 and u = u and timeout = timeout, OF c to] .
  from g2 nm have "Get (KubeRest h) (Name ?app') (Namespace ?app') (world ?s2) = (r2, w3)"
    by simp
  note rf = refreshApplicationForErrorDebug_eval[OF this]
  have A: "CreateApplicationWithTimeout h u name namespace timeout s =
           Some ((None,
                  Some (ErrorString
                    (''timed out when waiting for devfile content creation for application '' @ name
                       @ '' in '' @ namespace
                       @ '' namespace: timed out waiting for the condition. applicattion: ''
                       @ ToPrettyJSONString u
                           (case r2 of Inl e \<Rightarrow> ?app' | Inr retApp \<Rightarrow> retApp)))),
                 \<lparr>world = w3,
                  trace = trace s @ [EvCreate (newApplication name namespace name) (Inr application),
                                     EvGet (Name application) (Namespace application) r1,
                                     EvGet (Name application) (Namespace application) r2]\<rparr>)"
    using cr w rf nm
    by (simp add: CreateApplicationWithTimeout_def kubeCreate_def createTimeoutMessage_def)
  have B: "\<exists>res. CreateApplicationWithTimeout h u name namespace t s = Some res"
    if pos: "0 < pollInterval u" for t
  proof -
    from WaitUntil_total[OF pos, of "ApplicationDevfilePresent h" t application ?s1]
    obtain res where "WaitUntil u (ApplicationDevfilePresent h) t application ?s1 = Some res"
      by (elim exE)
    with cr show ?thesis
      by (cases res)
         (auto simp: CreateApplicationWithTimeout_def kubeCreate_def
            split: option.splits prod.splits)
  qed
  from A B show ?thesis by blast
qed

theorem CreateApplicationWithTimeout_nonpositive_timeout_witness:
  "CreateApplicationWithTimeout (creatingCluster None Second) (fakeUtils Second)
     ''app'' ''ns1'' 0 (initial 0) =
   Some ((None,
          Some (ErrorString ''timed out when waiting for devfile content creation for application app in ns1 namespace: timed out waiting for the condition. applicattion: {name: app, devfile: }'')),
         \<lparr>world = 0,
          trace = [EvCreate (newApplication ''app'' ''ns1'' ''app'')
                     (Inr (newApplication ''app'' ''ns1'' ''app'')),
                   EvGet ''app'' ''ns1'' (Inr (newApplication ''app'' ''ns1'' ''app'')),
                   EvGet ''app'' ''ns1'' (Inr (newApplication ''app'' ''ns1'' ''app''))]\<rparr>) \<and>
   CreateApplicationWithTimeout (creatingCluster None Second) (fakeUtils Second)
     ''app'' ''ns1'' (- Minute) (initial 0) =
   Some ((None,
          Some (ErrorString ''timed out when waiting for devfile content creation for application app in ns1 namespace: timed out waiting for the condition. applicattion: {name: app, devfile: }'')),
         \<lparr>world = 0,
          trace = [EvCreate (newApplication ''app'' ''ns1'' ''app'')
                     (Inr (newApplication ''app'' ''ns1'' ''app'')),
                   EvGet ''app'' ''ns1'' (Inr (newApplication ''app'' ''ns1'' ''app'')),
                   EvGet ''app'' ''ns1'' (Inr (newApplication ''app'' ''ns1'' ''app''))]\<rparr>)"
proof -
  let ?h = "creatingCluster None Second"
  let ?app = "newApplication ''app'' ''ns1'' ''app''"
  have t0: "(0 :: Duration) \<le> 0" by simp
  have t1: "- Minute \<le> 0" by (simp add: Minute_def Second_def)
  have cr: "Create (KubeRest ?h) (newApplication ''app'' ''ns1'' ''app'') (world (initial 0)) = (Inr ?app, 0)"
    by (simp add: creatingCluster_def initial_def)
  have g: "Get (KubeRest ?h) (Name ?app) (Namespace ?app) 0 = (Inr ?app, 0)"
    by (simp add: creatingCluster_def newApplication_def Second_def)
  have nr: "\<not> (case (Inr ?app :: error + Application) of Inl err \<Rightarrow> False
                | Inr app \<Rightarrow> Devfile (Status app) \<noteq> '''')"
    by (simp add: newApplication_def)
  from CreateApplicationWithTimeout_nonpositive_timeout[OF t0 cr g nr g, of "fakeUtils Second"]
    CreateApplicationWithTimeout_nonpositive_timeout[OF t1 cr g nr g, of "fakeUtils Second"]
  show ?thesis
    by (simp add: fakeUtils_def newApplication_def initial_def)
qed



text \<open>
  C9. \<open>CreateApplication\<close> is \<open>CreateApplicationWithTimeout\<close> with a timeout of ten
  minutes, that is 600 seconds or 600000000000 nanoseconds, for every name, namespace and
  state of the cluster.
\<close>

theorem CreateApplication_default_timeout:
  "CreateApplication h u name namespace s =
     CreateApplicationWithTimeout h u name namespace (10 * Minute) s \<and>
   10 * Minute = 600 * Second \<and> 10 * Minute = (600000000000 :: Duration)"
  by (simp add: CreateApplication_def Minute_def Second_def mult.commute)

theorem CreateApplication_default_timeout_witness:
  "CreateApplication (creatingCluster None 0) (fakeUtils Second) ''app'' ''ns1'' (initial 0) =
     Some ((Some ((newApplication ''app'' ''ns1'' ''app'')
                    \<lparr>Status := \<lparr>Devfile = ''schemaVersion: 2.2.0''\<rparr>\<rparr>), None),
           \<lparr>world = 0,
            trace = [EvCreate (newApplication ''app'' ''ns1'' ''app'')
                       (Inr (newApplication ''app'' ''ns1'' ''app'')),
                     EvGet ''app'' ''ns1''
                       (Inr ((newApplication ''app'' ''ns1'' ''app'')
                               \<lparr>Status := \<lparr>Devfile = ''schemaVersion: 2.2.0''\<rparr>\<rparr>))]\<rparr>)"
  using CreateApplication_default_timeout[of "creatingCluster None 0" "fakeUtils Second"
      "''app''" "''ns1''" "initial 0"]
  by (simp add: run_defs)



text \<open>
  C10. When \<open>DeleteApplication\<close> does not return the error of the submission, its result
  is that of the absence poll run with a timeout of 60000000000 nanoseconds, one minute,
  whatever the name, the namespace, the flag and the cluster are. Accordingly, when such
  a call returns an error, the error is the timeout of the poll and the call has slept for
  at least one minute in total.
\<close>

theorem DeleteApplication_confirmation_deadline:
  assumes del: "Delete (KubeRest h) (newApplication name namespace '''') (world s) = (derr, w1)"
    and unreported: "case derr of None \<Rightarrow> True | Some e \<Rightarrow> IsNotFound e \<and> \<not> reportErrorOnNotFound"
  shows "DeleteApplication h u name namespace reportErrorOnNotFound s =
           waitResult (WaitUntil u (ApplicationDeleted h) 60000000000
             (newApplication name namespace '''')
             \<lparr>world = w1,
              trace = trace s @ [EvDelete (newApplication name namespace '''') derr]\<rparr>) \<and>
         (\<forall>r s'. DeleteApplication h u name namespace reportErrorOnNotFound s = Some (r, s') \<and> r \<noteq> None \<longrightarrow>
            r = Some ErrWaitTimeout \<and> 60000000000 \<le> slept (trace s') - slept (trace s))"
proof -
  let ?app = "newApplication name namespace ''''"
  let ?s1 = "\<lparr>world = w1, trace = trace s @ [EvDelete ?app derr]\<rparr>"
  have A: "DeleteApplication h u name namespace reportErrorOnNotFound s =
             waitResult (WaitUntil u (ApplicationDeleted h) 60000000000 ?app ?s1)"
    using assms
    by (cases derr)
       (simp_all add: DeleteApplication_def kubeDelete_def Let_def Minute_def Second_def)
  have B: "r = Some ErrWaitTimeout \<and> 60000000000 \<le> slept (trace s') - slept (trace s)"
    if run: "DeleteApplication h u name namespace reportErrorOnNotFound s = Some (r, s')"
      and r: "r \<noteq> None" for r s'
  proof -
    from run A obtain a' where
      w: "WaitUntil u (ApplicationDeleted h) 60000000000 ?app ?s1 = Some (r, a', s')"
      by (auto simp: waitResult_def split: option.splits)
    from WaitUntil_no_error[OF w ApplicationDeleted_no_error] r
    have 1: "r = Some ErrWaitTimeout" by simp
    from w have "pollLoop u (ApplicationDeleted h) 60000000000 0 ?app ?s1 = Some (r, a', s')"
      by (simp add: WaitUntil_def)
    from pollLoop_deadline[OF this ApplicationDeleted_no_error ApplicationDeleted_quiet] r
    have "60000000000 \<le> slept (trace s') - slept (trace ?s1)" by simp
    then have 2: "60000000000 \<le> slept (trace s') - slept (trace s)"
      by (simp add: slept_append)
    from 1 2 show ?thesis ..
  qed
  from A B show ?thesis by blast
qed

theorem DeleteApplication_confirmation_deadline_witness:
  "DeleteApplication (deletingCluster None (2 * Minute)) (fakeUtils (30 * Second)) ''app'' ''ns1'' False
     (initial 0) =
   Some (Some ErrWaitTimeout,
         \<lparr>world = 60 * Second,
          trace = [EvDelete (newApplication ''app'' ''ns1'' '''') None,
                   EvGet ''app'' ''ns1'' (Inr (newApplication ''app'' ''ns1'' ''app'')),
                   EvSleep (30 * Second),
                   EvGet ''app'' ''ns1'' (Inr (newApplication ''app'' ''ns1'' ''app'')),
                   EvSleep (30 * Second),
                   EvGet ''app'' ''ns1'' (Inr (newApplication ''app'' ''ns1'' ''app''))]\<rparr>)"
proof -
  have del: "Delete (KubeRest (deletingCluster None (2 * Minute))) (newApplication ''app'' ''ns1'' '''')
               (world (initial 0)) = (None, 0)"
    by (simp add: deletingCluster_def initial_def)
  have un: "case None :: error option of None \<Rightarrow> True | Some e \<Rightarrow> IsNotFound e \<and> \<not> False"
    by simp
  from DeleteApplication_confirmation_deadline[OF del un, of "fakeUtils (30 * Second)"]
  show ?thesis
    by (simp add: WaitUntil_def pollLoop.simps ApplicationDeleted_def GetApplication_def kubeGet_def
          deletingCluster_def fakeUtils_def newApplication_def initial_def timeSleep_def
          Second_def Minute_def waitResult_def)
qed

end
